theory Spec2Isabelle
  imports Complex_Main
begin

section \<open>Go strings\<close>

text \<open>
  A Go string is a sequence of bytes; \<^typ>\<open>string\<close> is a list of 8-bit characters.
\<close>

text \<open>\<^verbatim>\<open>strings.HasPrefix(s, prefix)\<close>\<close>

definition strings_HasPrefix :: "string \<Rightarrow> string \<Rightarrow> bool" where
  "strings_HasPrefix s p = (take (length p) s = p)"

text \<open>\<^verbatim>\<open>strings.Contains(s, substr)\<close>: some suffix of \<open>s\<close> starts with \<open>substr\<close>.\<close>

fun strings_Contains :: "string \<Rightarrow> string \<Rightarrow> bool" where
  "strings_Contains [] sub = (sub = [])"
| "strings_Contains (c # cs) sub = (strings_HasPrefix (c # cs) sub \<or> strings_Contains cs sub)"

text \<open>
  \<^verbatim>\<open>strings.Split(s, sep)\<close> for a one-byte separator: the pieces between the separators,
  in order. The result is never empty: \<^verbatim>\<open>strings.Split("", ".")\<close> is \<^verbatim>\<open>[""]\<close>.
\<close>

fun strings_Split :: "string \<Rightarrow> char \<Rightarrow> string list" where
  "strings_Split [] sep = [[]]"
| "strings_Split (c # cs) sep =
     (if c = sep then [] # strings_Split cs sep
      else (case strings_Split cs sep of
              [] \<Rightarrow> [[c]]
            | p # ps \<Rightarrow> (c # p) # ps))"

section \<open>Values of the Go standard library\<close>

text \<open>
  A \<^verbatim>\<open>float64\<close>: a finite value, given by the rational number it denotes, or one of
  the three special values.
\<close>

datatype float64 = Finite rat | NaN | PosInf | NegInf

text \<open>
  What \<^verbatim>\<open>json.Unmarshal\<close> stores into an \<^verbatim>\<open>interface{}\<close>: \<^verbatim>\<open>nil\<close>, \<^verbatim>\<open>bool\<close>,
  \<^verbatim>\<open>float64\<close>, \<^verbatim>\<open>string\<close>, \<^verbatim>\<open>[]interface{}\<close> or \<^verbatim>\<open>map[string]interface{}\<close>.
\<close>

datatype jvalue =
    JNull
  | JBool bool
  | JNumber float64
  | JString string
  | JArray "jvalue list"
  | JObject "(string \<times> jvalue) list"

text \<open>
  The functions of the standard library that \<^verbatim>\<open>decodeJWT\<close> calls are parameters of the
  model:
  \<^item> \<^verbatim>\<open>base64.RawURLEncoding.DecodeString\<close> (\<open>None\<close>: it returns an error);
  \<^item> \<^verbatim>\<open>json.Unmarshal\<close> into a \<^verbatim>\<open>map[string]interface{}\<close> (\<open>None\<close>: it returns an
    error; otherwise the map, as a lookup function);
  \<^item> \<^verbatim>\<open>strconv.ParseFloat(s, 64)\<close> (\<open>None\<close>: it returns an error);
  \<^item> the formatting of a \<^verbatim>\<open>float64\<close> in \<^verbatim>\<open>toString\<close> (\<^verbatim>\<open>strconv.FormatInt\<close> or
    \<^verbatim>\<open>strconv.FormatFloat\<close>);
  \<^item> the result of converting to \<^verbatim>\<open>int64\<close> a \<^verbatim>\<open>float64\<close> that no \<^verbatim>\<open>int64\<close>
    represents, which the language leaves to the implementation.
\<close>

record golib =
  base64_DecodeString :: "string \<Rightarrow> string option"
  json_Unmarshal :: "string \<Rightarrow> (string \<rightharpoonup> jvalue) option"
  strconv_ParseFloat :: "string \<Rightarrow> float64 option"
  strconv_Format :: "float64 \<Rightarrow> string"
  int64_unrepresentable :: "float64 \<Rightarrow> int"

text \<open>An \<^verbatim>\<open>int64\<close> is an integer in \<open>[-2^63, 2^63)\<close>; \<open>wrap64\<close> is two's complement wrap-around.\<close>

definition wrap64 :: "int \<Rightarrow> int" where
  "wrap64 x = (x + 2 ^ 63) mod 2 ^ 64 - 2 ^ 63"

definition in_int64 :: "int \<Rightarrow> bool" where
  "in_int64 x = (- (2 ^ 63) \<le> x \<and> x < 2 ^ 63)"

text \<open>
  The conversion \<^verbatim>\<open>int64(f)\<close> of a \<^verbatim>\<open>float64\<close>: the fraction is discarded (truncation
  towards zero) when the result is an \<^verbatim>\<open>int64\<close>.
\<close>

definition truncate_rat :: "rat \<Rightarrow> int" where
  "truncate_rat r = (if 0 \<le> r then \<lfloor>r\<rfloor> else \<lceil>r\<rceil>)"

definition int64_of_float64 :: "golib \<Rightarrow> float64 \<Rightarrow> int" where
  "int64_of_float64 L f =
     (case f of
        Finite r \<Rightarrow>
          (if in_int64 (truncate_rat r) then truncate_rat r
           else wrap64 (int64_unrepresentable L f))
      | _ \<Rightarrow> wrap64 (int64_unrepresentable L f))"

section \<open>The CLI helpers \<^verbatim>\<open>toString\<close> and \<^verbatim>\<open>toFloat\<close>\<close>

text \<open>
  \<^verbatim>\<open>toString\<close> (\<^verbatim>\<open>cli.go\<close>, in the snapshot \<^verbatim>\<open>unnamed/part_002\<close>, lines 1288 to 1308)
  on a value that \<^verbatim>\<open>json.Unmarshal\<close> produced: the cases \<^verbatim>\<open>string\<close> and
  \<^verbatim>\<open>float64\<close> of its type switch apply, every other dynamic type takes \<^verbatim>\<open>default\<close>.
\<close>

fun toString :: "golib \<Rightarrow> jvalue \<Rightarrow> string" where
  "toString L (JString v) = v"
| "toString L (JNumber v) = strconv_Format L v"
| "toString L _ = []"

text \<open>
  \<^verbatim>\<open>toFloat\<close> (lines 1331 to 1350): a \<^verbatim>\<open>float64\<close> is returned as it is; any other value goes through
  \<^verbatim>\<open>toString\<close> and \<^verbatim>\<open>strconv.ParseFloat\<close>, and gives 0 when that fails.
\<close>

fun toFloat :: "golib \<Rightarrow> jvalue \<Rightarrow> float64" where
  "toFloat L (JNumber v) = v"
| "toFloat L value =
     (let s = toString L value in
      if s \<noteq> [] then
        (case strconv_ParseFloat L s of Some f \<Rightarrow> f | None \<Rightarrow> Finite 0)
      else Finite 0)"

section \<open>\<^verbatim>\<open>decodeJWT\<close>\<close>

text \<open>
  The errors of the functions modelled here: \<^verbatim>\<open>"invalid token format"\<close>; the error of the
  base64 decoder; the error of \<^verbatim>\<open>json.Unmarshal\<close>; an error of starting the browser,
  opening the page or navigating; \<^verbatim>\<open>"login timed out"\<close>; the error of
  \<^verbatim>\<open>page.Evaluate\<close>; \<^verbatim>\<open>"unexpected localStorage result"\<close>;
  \<^verbatim>\<open>"unexpected storage scan result"\<close>; and \<^verbatim>\<open>"failed to extract authentication data"\<close>.
\<close>

datatype error =
    InvalidTokenFormat
  | Base64Error
  | JSONError
  | LaunchError
  | LoginTimedOut
  | EvaluateError
  | UnexpectedLocalStorageResult
  | UnexpectedStorageScanResult
  | ExtractFailed

text \<open>\<^verbatim>\<open>decodeJWT\<close> (\<^verbatim>\<open>cli.go\<close>, in the snapshot \<^verbatim>\<open>unnamed/part_002\<close>, lines 182 to 208).\<close>

record jwtClaims =
  Sub :: string
  claims_Email :: string
  Exp :: int

text \<open>The type assertion \<^verbatim>\<open>raw[key].(string)\<close>, with the zero value when it fails.\<close>

definition string_claim :: "(string \<rightharpoonup> jvalue) \<Rightarrow> string \<Rightarrow> string" where
  "string_claim raw key = (case raw key of Some (JString s) \<Rightarrow> s | _ \<Rightarrow> [])"

definition exp_claim :: "golib \<Rightarrow> (string \<rightharpoonup> jvalue) \<Rightarrow> int" where
  "exp_claim L raw =
     (case raw ''exp'' of
        Some expVal \<Rightarrow> int64_of_float64 L (toFloat L expVal)
      | None \<Rightarrow> 0)"

definition decodeJWT :: "golib \<Rightarrow> string \<Rightarrow> error + jwtClaims" where
  "decodeJWT L token =
     (let parts = strings_Split token (CHR ''.'') in
      if length parts \<noteq> 3 then Inl InvalidTokenFormat
      else
        (case base64_DecodeString L (parts ! 1) of
           None \<Rightarrow> Inl Base64Error
         | Some payload \<Rightarrow>
             (case json_Unmarshal L payload of
                None \<Rightarrow> Inl JSONError
              | Some raw \<Rightarrow>
                  Inr \<lparr>Sub = string_claim raw ''sub'',
                       claims_Email = string_claim raw ''email'',
                       Exp = exp_claim L raw\<rparr>)))"

section \<open>Token expiry\<close>

text \<open>
  The part of \<^verbatim>\<open>time.Time\<close> that \<^verbatim>\<open>Before\<close> reads when the receiver carries no
  monotonic clock reading: the seconds since January 1 of year 1 (an \<^verbatim>\<open>int64\<close>) and
  the nanoseconds within the second.
\<close>

record time_Time =
  t_sec :: int
  t_nsec :: nat

definition unixToInternal :: int where
  "unixToInternal = 62135596800"

text \<open>\<^verbatim>\<open>time.Unix(sec, 0)\<close>: the addition is an \<^verbatim>\<open>int64\<close> addition and wraps.\<close>

definition time_Unix :: "int \<Rightarrow> time_Time" where
  "time_Unix s = \<lparr>t_sec = wrap64 (s + unixToInternal), t_nsec = 0\<rparr>"

definition time_Before :: "time_Time \<Rightarrow> time_Time \<Rightarrow> bool" where
  "time_Before t u = (t_sec t < t_sec u \<or> t_sec t = t_sec u \<and> t_nsec t < t_nsec u)"

text \<open>The instant \<open>k\<close> nanoseconds after the Unix second \<open>n\<close>, as \<^verbatim>\<open>time.Now()\<close> gives it.\<close>

definition time_at :: "int \<Rightarrow> nat \<Rightarrow> time_Time" where
  "time_at n k = \<lparr>t_sec = n + unixToInternal, t_nsec = k\<rparr>"

text \<open>
  The expiry test of \<^verbatim>\<open>loginCommand\<close> (line 285) and \<^verbatim>\<open>statusCommand\<close> (lines 350 to
  352): \<^verbatim>\<open>decoded.Exp > 0 && time.Unix(decoded.Exp, 0).Before(time.Now())\<close>.
\<close>

definition tokenExpired :: "int \<Rightarrow> time_Time \<Rightarrow> bool" where
  "tokenExpired e now = (0 < e \<and> time_Before (time_Unix e) now)"

text \<open>
  The predicate as the specification words it: true iff \<open>exp\<close> is present, nonzero and
  strictly less than \<open>now\<close> (both in Unix seconds).
\<close>

definition spec_isExpired :: "int option \<Rightarrow> int \<Rightarrow> bool" where
  "spec_isExpired e now = (case e of None \<Rightarrow> False | Some x \<Rightarrow> x \<noteq> 0 \<and> x < now)"


section \<open>Browser login\<close>

text \<open>
  The snapshot holds two revisions of \<^verbatim>\<open>internal/cli/browser_auth.go\<close>. This development
  follows the later one, which the snapshot carries in \<^verbatim>\<open>internal/cli/config.go\<close> after
  the file separator (lines 69 to 475); the line numbers below are those of that file.
\<close>

record BrowserAuthResult =
  AccessToken :: string
  UserUUID :: string
  PublicUserUUID :: string
  UserName :: string
  Email :: string

record authResponsePayload =
  payload_Name :: string
  payload_UUID :: string
  payload_PublicUUID :: string
  payload_AccessToken :: string
  payload_RefreshToken :: string

subsection \<open>The response handler and \<^verbatim>\<open>waitForAuthResponse\<close>\<close>

text \<open>
  Time is in nanoseconds. A network response as the handler sees it: its status, its
  URL, what \<^verbatim>\<open>resp.JSON(&payload)\<close> gives (\<open>None\<close>: an error), and the time, counted from
  the moment \<^verbatim>\<open>waitForAuthResponse\<close> starts to wait, at which the goroutine of the handler
  reaches its \<^verbatim>\<open>select\<close> (0 when it got there earlier). A list of responses is in the
  order in which the goroutines reach the \<^verbatim>\<open>select\<close>.
\<close>

record response =
  resp_Status :: int
  resp_URL :: string
  resp_JSON :: "authResponsePayload option"
  resp_offered :: nat

text \<open>
  The handler registered with \<^verbatim>\<open>page.OnResponse\<close> (lines 195 to 215), as a step on the
  content of the channel \<^verbatim>\<open>authResponseCh\<close>, which has capacity 1 (\<open>None\<close>: empty). The
  \<^verbatim>\<open>select\<close> with a \<^verbatim>\<open>default\<close> case sends when the channel is empty and does nothing
  when a payload is pending.
\<close>

definition onResponse :: "authResponsePayload option \<Rightarrow> response \<Rightarrow> authResponsePayload option" where
  "onResponse ch r =
     (if resp_Status r \<noteq> 200 then ch
      else if \<not> strings_Contains (resp_URL r) ''/bringauth'' then ch
      else
        (case resp_JSON r of
           None \<Rightarrow> ch
         | Some payload \<Rightarrow>
             if payload_AccessToken payload = [] then ch
             else (case ch of None \<Rightarrow> Some payload | Some pending \<Rightarrow> Some pending)))"

text \<open>A response whose payload the handler offers to the channel.\<close>

definition accepted :: "response \<Rightarrow> bool" where
  "accepted r =
     (resp_Status r = 200 \<and> strings_Contains (resp_URL r) ''/bringauth'' \<and>
      (case resp_JSON r of None \<Rightarrow> False | Some payload \<Rightarrow> payload_AccessToken payload \<noteq> []))"

text \<open>\<^verbatim>\<open>10*time.Second\<close>.\<close>

definition authResponseTimeout :: nat where
  "authResponseTimeout = 10000000000"

text \<open>
  The offers that reach the channel before the timer of \<^verbatim>\<open>waitForAuthResponse\<close> fires.
  When an offer and the timer are ready at the same instant, \<^verbatim>\<open>select\<close> picks one of the
  two; \<open>tie\<close> tells whether it picks the payload.
\<close>

definition in_time :: "nat \<Rightarrow> bool \<Rightarrow> response \<Rightarrow> bool" where
  "in_time timeout tie r = (resp_offered r < timeout \<or> (tie \<and> resp_offered r = timeout))"

text \<open>
  \<^verbatim>\<open>waitForAuthResponse\<close> (lines 268 to 277): the payload it receives, if any, and the time
  it has waited. It receives what the channel holds once a first payload has been sent
  in time, and waits until then; otherwise it waits until the timer fires.
\<close>

definition waitForAuthResponse ::
    "response list \<Rightarrow> nat \<Rightarrow> bool \<Rightarrow> authResponsePayload option \<times> nat" where
  "waitForAuthResponse rs timeout tie =
     (let offers = filter (in_time timeout tie) rs in
      case foldl onResponse None offers of
        Some payload \<Rightarrow>
          (Some payload,
           (case find accepted offers of Some r \<Rightarrow> resp_offered r | None \<Rightarrow> timeout))
      | None \<Rightarrow> (None, timeout))"

text \<open>
  The slot of the specification: a capacity-1 handoff with a non-blocking offer, which
  drops an arrival when a payload is pending.
\<close>

definition spec_offer :: "authResponsePayload option \<Rightarrow> authResponsePayload \<Rightarrow> authResponsePayload option" where
  "spec_offer slot p = (case slot of None \<Rightarrow> Some p | Some q \<Rightarrow> Some q)"

subsection \<open>Pages, \<^verbatim>\<open>loginDetected\<close> and \<^verbatim>\<open>findBringAppPage\<close>\<close>

text \<open>
  What \<^verbatim>\<open>page.Evaluate\<close> does with a script: it returns an error (the page or the browser
  is gone), it returns a value that is not a string, it returns a string that
  \<^verbatim>\<open>json.Unmarshal\<close> rejects, or it runs the script in the page. A browser that answers
  gives the last case; the other three are the error returns of the caller.
\<close>

datatype evaluation = EvalFails | EvalNotAString | EvalInvalidJSON | EvalScript

text \<open>
  A page: its URL, its two storage scopes with their keys in the order in which
  \<^verbatim>\<open>storage.key(i)\<close> enumerates them, and how it answers the two calls of
  \<^verbatim>\<open>page.Evaluate\<close> (the script of the canonical keys, and the script of the scan).
\<close>

record page =
  page_URL :: string
  localStorage :: "(string \<times> string) list"
  sessionStorage :: "(string \<times> string) list"
  evaluation :: evaluation
  scan_evaluation :: evaluation

text \<open>
  A page handle at one moment: the page, and the pages of its browsing context
  (\<open>None\<close>: \<^verbatim>\<open>page.Context()\<close> is \<^verbatim>\<open>nil\<close>).
\<close>

record view =
  view_page :: page
  view_context :: "page list option"

definition open_pages :: "view \<Rightarrow> page list" where
  "open_pages v = (case view_context v of None \<Rightarrow> [view_page v] | Some pages \<Rightarrow> pages)"

text \<open>\<^verbatim>\<open>isBringURL\<close> (lines 295 to 297).\<close>

definition isBringURL :: "string \<Rightarrow> bool" where
  "isBringURL u = strings_Contains u ''web.getbring.com''"

text \<open>\<^verbatim>\<open>loginDetected\<close> (lines 279 to 293).\<close>

definition loginDetected :: "view \<Rightarrow> bool" where
  "loginDetected v =
     list_ex (\<lambda>p. isBringURL (page_URL p) \<and> \<not> strings_Contains (page_URL p) ''/login'')
       (open_pages v)"

text \<open>\<^verbatim>\<open>findBringAppPage\<close> (lines 299 to 310).\<close>

definition findBringAppPage :: "view \<Rightarrow> page" where
  "findBringAppPage v =
     (case find (\<lambda>p. isBringURL (page_URL p) \<and> \<not> strings_Contains (page_URL p) ''/login'')
             (open_pages v) of
        Some p \<Rightarrow> p
      | None \<Rightarrow> view_page v)"

text \<open>
  Login completion as the specification words it: a URL on the target domain that is not
  the login path.
\<close>

definition spec_loginComplete :: "string \<Rightarrow> bool" where
  "spec_loginComplete u =
     (strings_Contains u ''web.getbring.com'' \<and> \<not> strings_Contains u ''/login'')"

subsection \<open>\<^verbatim>\<open>waitForLogin\<close>\<close>

text \<open>
  \<^verbatim>\<open>waitForLogin\<close> (lines 255 to 266). Poll \<open>i\<close> looks at the pages \<open>viewAt i\<close>. The clock
  reading \<open>now\<close> is the one before the poll: the reading that fixed the deadline, for
  the first poll. Two readings of the clock differ, so the reading that
  \<^verbatim>\<open>time.Now().After(deadline)\<close> takes after the poll is \<open>now + 1 + extra i\<close>, where
  \<open>extra i\<close> is any time the poll takes beyond one nanosecond. After a poll that finds no
  completed login and is not past the deadline, \<^verbatim>\<open>page.WaitForTimeout(1000)\<close> lets one
  second pass. The clock advances at every iteration, so the loop ends.
\<close>

function waitForLoginLoop :: "(nat \<Rightarrow> view) \<Rightarrow> (nat \<Rightarrow> nat) \<Rightarrow> nat \<Rightarrow> nat \<Rightarrow> nat \<Rightarrow> error option" where
  "waitForLoginLoop viewAt extra deadline i now =
     (if loginDetected (viewAt i) then None
      else if deadline < now + Suc (extra i) then Some LoginTimedOut
      else waitForLoginLoop viewAt extra deadline (Suc i) (now + Suc (extra i) + 1000000000))"
  by pat_completeness auto
termination
  by (relation "measure (\<lambda>(viewAt, extra, deadline, i, now). Suc deadline - now)") auto

declare waitForLoginLoop.simps [simp del]

definition waitForLogin :: "(nat \<Rightarrow> view) \<Rightarrow> (nat \<Rightarrow> nat) \<Rightarrow> nat \<Rightarrow> nat \<Rightarrow> error option" where
  "waitForLogin viewAt extra start timeout =
     waitForLoginLoop viewAt extra (start + timeout) 0 start"

text \<open>\<^verbatim>\<open>5*time.Minute\<close>.\<close>

definition loginTimeout :: nat where
  "loginTimeout = 300000000000"

text \<open>The clock reading that the deadline test of poll \<open>i\<close> takes.\<close>

definition check_time :: "(nat \<Rightarrow> nat) \<Rightarrow> nat \<Rightarrow> nat \<Rightarrow> nat" where
  "check_time extra start i =
     start + (\<Sum>k<i. Suc (extra k) + 1000000000) + Suc (extra i)"

subsection \<open>\<^verbatim>\<open>finalizeAuthResult\<close>\<close>

text \<open>
  \<^verbatim>\<open>finalizeAuthResult\<close> (lines 461 to 475). \<^verbatim>\<open>strings.Split\<close> never returns an empty
  list, so \<^verbatim>\<open>parts[len(parts)-1]\<close> is defined.
\<close>

definition finalizeAuthResult :: "golib \<Rightarrow> BrowserAuthResult \<Rightarrow> error + BrowserAuthResult" where
  "finalizeAuthResult L result =
     (if AccessToken result = [] then Inl ExtractFailed
      else if UserUUID result \<noteq> [] then Inr result
      else
        (case decodeJWT L (AccessToken result) of
           Inl err \<Rightarrow> Inl ExtractFailed
         | Inr claims \<Rightarrow>
             if Sub claims = [] then Inl ExtractFailed
             else Inr (result\<lparr>UserUUID := last (strings_Split (Sub claims) (CHR '':''))\<rparr>)))"

text \<open>
  The subject the specification requires: four colon-delimited segments,
  \<open>seg:seg:seg:id\<close>.
\<close>

definition spec_subject_shape :: "string \<Rightarrow> bool" where
  "spec_subject_shape s =
     (length (strings_Split s (CHR '':'')) = 4 \<and> [] \<notin> set (strings_Split s (CHR '':'')))"

subsection \<open>\<^verbatim>\<open>extractAuthFromStorage\<close>: the canonical keys\<close>

definition canonical_keys :: "string list" where
  "canonical_keys = [''accessToken'', ''userUuid'', ''publicUserUuid'', ''userName'', ''email'']"

text \<open>\<^verbatim>\<open>storage.getItem(key)\<close>: the value, or \<^verbatim>\<open>null\<close> (\<open>None\<close>) for an absent key.\<close>

definition getItem :: "(string \<times> string) list \<Rightarrow> string \<Rightarrow> string option" where
  "getItem storage key = map_of storage key"

text \<open>
  JavaScript's \<^verbatim>\<open>a || b\<close> on two results of \<^verbatim>\<open>getItem\<close>: \<open>a\<close> when it is a non-empty
  string, otherwise \<open>b\<close>.
\<close>

definition item_or :: "string option \<Rightarrow> string option \<Rightarrow> string option" where
  "item_or a b = (case a of None \<Rightarrow> b | Some s \<Rightarrow> if s \<noteq> [] then Some s else b)"

text \<open>
  The object the first script builds (lines 326 to 332): for each of the five keys,
  \<^verbatim>\<open>localStorage.getItem(key) || sessionStorage.getItem(key)\<close>.
\<close>

definition storage_script :: "page \<Rightarrow> (string \<times> string option) list" where
  "storage_script p =
     map (\<lambda>k. (k, item_or (getItem (localStorage p) k) (getItem (sessionStorage p) k)))
       canonical_keys"

text \<open>
  \<^verbatim>\<open>JSON.stringify\<close> of that object, then \<^verbatim>\<open>json.Unmarshal\<close> into a
  \<^verbatim>\<open>map[string]string\<close>, then indexing the map: a \<^verbatim>\<open>null\<close> member and a missing key
  both read as the empty string.
\<close>

definition unmarshal_index :: "(string \<times> string option) list \<Rightarrow> string \<Rightarrow> string" where
  "unmarshal_index obj k = (case map_of obj k of Some (Some v) \<Rightarrow> v | _ \<Rightarrow> [])"

subsection \<open>\<^verbatim>\<open>extractAuthFromStorageFallback\<close>: the scan\<close>

text \<open>
  The script of the scan (lines 380 to 437) works on JavaScript values: those that
  \<^verbatim>\<open>JSON.parse\<close> returns are the values of type \<^typ>\<open>jvalue\<close>, and \<^verbatim>\<open>undefined\<close> is
  \<open>None\<close>. The two functions of the JavaScript engine that the script calls are
  parameters of the model: \<^verbatim>\<open>value.match(jwtRegex)\<close>, which gives the matched text
  (\<open>None\<close>: no match), and \<^verbatim>\<open>JSON.parse(value)\<close> (\<open>None\<close>: it throws).
\<close>

record jsengine =
  js_match_jwt :: "string \<Rightarrow> string option"
  js_JSON_parse :: "string \<Rightarrow> jvalue option"

text \<open>Whether a JavaScript value counts as true in a condition.\<close>

fun truthy :: "jvalue option \<Rightarrow> bool" where
  "truthy None = False"
| "truthy (Some JNull) = False"
| "truthy (Some (JBool b)) = b"
| "truthy (Some (JNumber f)) = (f \<noteq> Finite 0 \<and> f \<noteq> NaN)"
| "truthy (Some (JString s)) = (s \<noteq> [])"
| "truthy (Some (JArray xs)) = True"
| "truthy (Some (JObject ms)) = True"

definition js_or :: "jvalue option \<Rightarrow> jvalue option \<Rightarrow> jvalue option" where
  "js_or a b = (if truthy a then a else b)"

definition js_and :: "jvalue option \<Rightarrow> jvalue option \<Rightarrow> jvalue option" where
  "js_and a b = (if truthy a then b else a)"

text \<open>
  The property \<open>name\<close> of a value, for the names the script reads: a member of an object;
  \<^verbatim>\<open>undefined\<close> on an object without that member and on every other value.
\<close>

fun property :: "jvalue option \<Rightarrow> string \<Rightarrow> jvalue option" where
  "property (Some (JObject ms)) name = map_of ms name"
| "property _ name = None"

text \<open>\<^verbatim>\<open>typeof obj === 'object'\<close> for a value that is not \<^verbatim>\<open>null\<close>.\<close>

fun is_object :: "jvalue \<Rightarrow> bool" where
  "is_object (JObject ms) = True"
| "is_object (JArray xs) = True"
| "is_object _ = False"

text \<open>The object \<^verbatim>\<open>result\<close> of the script: each field is \<^verbatim>\<open>undefined\<close> until it is set.\<close>

record scan_result =
  r_accessToken :: "jvalue option"
  r_userUuid :: "jvalue option"
  r_publicUserUuid :: "jvalue option"
  r_userName :: "jvalue option"
  r_email :: "jvalue option"

definition empty_result :: scan_result where
  "empty_result =
     \<lparr>r_accessToken = None, r_userUuid = None, r_publicUserUuid = None, r_userName = None,
      r_email = None\<rparr>"

text \<open>The five alias lists of \<^verbatim>\<open>trySet\<close> (lines 388 to 392).\<close>

definition accessToken_alias :: "jvalue \<Rightarrow> jvalue option" where
  "accessToken_alias obj =
     js_or (js_or (js_or (property (Some obj) ''access_token'') (property (Some obj) ''accessToken''))
              (property (Some obj) ''token''))
       (js_and (property (Some obj) ''auth'')
          (js_or (property (property (Some obj) ''auth'') ''access_token'')
             (property (property (Some obj) ''auth'') ''accessToken'')))"

definition userUuid_alias :: "jvalue \<Rightarrow> jvalue option" where
  "userUuid_alias obj =
     js_or (js_or (js_or (property (Some obj) ''userUuid'') (property (Some obj) ''user_uuid''))
              (property (Some obj) ''uuid''))
       (js_and (property (Some obj) ''user'')
          (js_or (property (property (Some obj) ''user'') ''uuid'')
             (property (property (Some obj) ''user'') ''userUuid'')))"

definition publicUserUuid_alias :: "jvalue \<Rightarrow> jvalue option" where
  "publicUserUuid_alias obj =
     js_or (js_or (property (Some obj) ''publicUuid'') (property (Some obj) ''public_user_uuid''))
       (property (Some obj) ''publicUserUuid'')"

definition userName_alias :: "jvalue \<Rightarrow> jvalue option" where
  "userName_alias obj =
     js_or (js_or (property (Some obj) ''name'') (property (Some obj) ''userName''))
       (js_and (property (Some obj) ''user'')
          (js_or (property (property (Some obj) ''user'') ''name'')
             (property (property (Some obj) ''user'') ''userName'')))"

definition email_alias :: "jvalue \<Rightarrow> jvalue option" where
  "email_alias obj =
     js_or (property (Some obj) ''email'')
       (js_and (property (Some obj) ''user'') (property (property (Some obj) ''user'') ''email''))"

text \<open>\<^verbatim>\<open>if (x && !result.f) { result.f = x; }\<close>, as the new value of the field.\<close>

definition set_if_unset :: "jvalue option \<Rightarrow> jvalue option \<Rightarrow> jvalue option" where
  "set_if_unset x field = (if truthy x \<and> \<not> truthy field then x else field)"

text \<open>
  \<^verbatim>\<open>trySet\<close> (lines 384 to 409): whether its return value counts as true, and the
  \<^verbatim>\<open>result\<close> it leaves.
\<close>

definition trySet :: "jvalue \<Rightarrow> scan_result \<Rightarrow> bool \<times> scan_result" where
  "trySet obj result =
     (if \<not> truthy (Some obj) \<or> \<not> is_object obj then (False, result)
      else
        (let result' =
               \<lparr>r_accessToken = set_if_unset (accessToken_alias obj) (r_accessToken result),
                r_userUuid = set_if_unset (userUuid_alias obj) (r_userUuid result),
                r_publicUserUuid =
                  set_if_unset (publicUserUuid_alias obj) (r_publicUserUuid result),
                r_userName = set_if_unset (userName_alias obj) (r_userName result),
                r_email = set_if_unset (email_alias obj) (r_email result)\<rparr>
         in (truthy (js_or (r_accessToken result') (r_userUuid result')), result')))"

text \<open>
  The two nested loops of the script (lines 411 to 436) over the entries of
  \<^verbatim>\<open>localStorage\<close> and then of \<^verbatim>\<open>sessionStorage\<close>: the \<^verbatim>\<open>result\<close> that the script
  stringifies, at the early \<^verbatim>\<open>return\<close> or at the end.
\<close>

fun scan :: "jsengine \<Rightarrow> scan_result \<Rightarrow> (string \<times> string) list \<Rightarrow> scan_result" where
  "scan J result [] = result"
| "scan J result ((key, value) # rest) =
     (if value = [] then scan J result rest
      else
        (let result1 =
               (if \<not> truthy (r_accessToken result) then
                  (case js_match_jwt J value of
                     Some jwt \<Rightarrow>
                       if jwt \<noteq> [] then result\<lparr>r_accessToken := Some (JString jwt)\<rparr>
                       else result
                   | None \<Rightarrow> result)
                else result)
         in case js_JSON_parse J value of
              None \<Rightarrow> scan J result1 rest
            | Some parsed \<Rightarrow>
                (case trySet parsed result1 of
                   (found, result2) \<Rightarrow>
                     if found \<and> truthy (r_accessToken result2) \<and> truthy (r_userUuid result2)
                     then result2
                     else scan J result2 rest)))"

text \<open>
  A field of the stringified \<^verbatim>\<open>result\<close> as \<^verbatim>\<open>json.Unmarshal\<close> reads it into a
  \<^verbatim>\<open>map[string]string\<close> and the map is indexed: the empty string for a field that was
  never set, the string for a string, and an error (\<open>None\<close>) for any other value.
\<close>

fun string_field :: "jvalue option \<Rightarrow> string option" where
  "string_field None = Some []"
| "string_field (Some (JString s)) = Some s"
| "string_field (Some v) = None"

definition unmarshal_scan :: "scan_result \<Rightarrow> error + BrowserAuthResult" where
  "unmarshal_scan r =
     (case (string_field (r_accessToken r), string_field (r_userUuid r),
            string_field (r_publicUserUuid r), string_field (r_userName r),
            string_field (r_email r)) of
        (Some a, Some u, Some p, Some n, Some e) \<Rightarrow>
          Inr \<lparr>AccessToken = a, UserUUID = u, PublicUserUUID = p, UserName = n, Email = e\<rparr>
      | _ \<Rightarrow> Inl JSONError)"

text \<open>\<^verbatim>\<open>extractAuthFromStorageFallback\<close> (lines 379 to 459).\<close>

definition extractAuthFromStorageFallback :: "jsengine \<Rightarrow> page \<Rightarrow> error + BrowserAuthResult" where
  "extractAuthFromStorageFallback J p =
     (case scan_evaluation p of
        EvalFails \<Rightarrow> Inl EvaluateError
      | EvalNotAString \<Rightarrow> Inl UnexpectedStorageScanResult
      | EvalInvalidJSON \<Rightarrow> Inl JSONError
      | EvalScript \<Rightarrow> unmarshal_scan (scan J empty_result (localStorage p @ sessionStorage p)))"

subsection \<open>\<^verbatim>\<open>extractAuthFromStorage\<close>\<close>

text \<open>
  The merge of lines 357 to 373: a field of the first reading that is empty takes the
  value the scan found.
\<close>

definition fill_from :: "BrowserAuthResult \<Rightarrow> BrowserAuthResult \<Rightarrow> BrowserAuthResult" where
  "fill_from fallback result =
     \<lparr>AccessToken = (if AccessToken result = [] then AccessToken fallback else AccessToken result),
      UserUUID = (if UserUUID result = [] then UserUUID fallback else UserUUID result),
      PublicUserUUID =
        (if PublicUserUUID result = [] then PublicUserUUID fallback else PublicUserUUID result),
      UserName = (if UserName result = [] then UserName fallback else UserName result),
      Email = (if Email result = [] then Email fallback else Email result)\<rparr>"

text \<open>The result of lines 347 to 353, from the canonical keys.\<close>

definition canonical_result :: "page \<Rightarrow> BrowserAuthResult" where
  "canonical_result p =
     (let data = unmarshal_index (storage_script p) in
      \<lparr>AccessToken = data ''accessToken'',
       UserUUID = data ''userUuid'',
       PublicUserUUID = data ''publicUserUuid'',
       UserName = data ''userName'',
       Email = data ''email''\<rparr>)"

text \<open>
  The result that \<^verbatim>\<open>extractAuthFromStorage\<close> hands to \<^verbatim>\<open>finalizeAuthResult\<close> (lines 347
  to 374): the canonical keys, completed by the scan when the access token or the user
  id is missing and the scan succeeds with one of the two.
\<close>

definition merged_result :: "jsengine \<Rightarrow> page \<Rightarrow> BrowserAuthResult" where
  "merged_result J p =
     (let result = canonical_result p in
      if AccessToken result = [] \<or> UserUUID result = [] then
        (case extractAuthFromStorageFallback J p of
           Inr fallback \<Rightarrow>
             if AccessToken fallback \<noteq> [] \<or> UserUUID fallback \<noteq> []
             then fill_from fallback result
             else result
         | Inl err \<Rightarrow> result)
      else result)"

text \<open>\<^verbatim>\<open>extractAuthFromStorage\<close> (lines 325 to 377).\<close>

definition extractAuthFromStorage :: "golib \<Rightarrow> jsengine \<Rightarrow> page \<Rightarrow> error + BrowserAuthResult" where
  "extractAuthFromStorage L J p =
     (case evaluation p of
        EvalFails \<Rightarrow> Inl EvaluateError
      | EvalNotAString \<Rightarrow> Inl UnexpectedLocalStorageResult
      | EvalInvalidJSON \<Rightarrow> Inl JSONError
      | EvalScript \<Rightarrow> finalizeAuthResult L (merged_result J p))"

subsection \<open>\<^verbatim>\<open>BrowserLoginWithIntercept\<close>\<close>

text \<open>
  One login attempt, as \<^verbatim>\<open>BrowserLoginWithIntercept\<close> (lines 165 to 245) meets it: whether
  starting the browser, opening the page or navigating fails (each of these returns the
  error as it is); the responses; the pages at each poll of \<^verbatim>\<open>waitForLogin\<close>, and the
  clock; how \<^verbatim>\<open>select\<close> decides a tie; and the pages when \<^verbatim>\<open>findBringAppPage\<close> runs, with
  their storage as it is when it is read (after \<^verbatim>\<open>waitForAuthStorage\<close>, whose result the
  function ignores, and \<^verbatim>\<open>page.WaitForTimeout(1000)\<close>).
\<close>

record attempt =
  setup_error :: "error option"
  responses :: "response list"
  view_at :: "nat \<Rightarrow> view"
  poll_extra :: "nat \<Rightarrow> nat"
  start_time :: nat
  select_tie :: bool
  storage_view :: view

text \<open>
  What a run of the function does: the value it returns, the time it spends in
  \<^verbatim>\<open>waitForAuthResponse\<close>, and the number of times it calls \<^verbatim>\<open>extractAuthFromStorage\<close>.
\<close>

record run =
  outcome :: "error + BrowserAuthResult"
  waited :: nat
  extractions :: nat

definition BrowserLoginWithIntercept :: "golib \<Rightarrow> jsengine \<Rightarrow> attempt \<Rightarrow> run" where
  "BrowserLoginWithIntercept L J a =
     (case setup_error a of
        Some err \<Rightarrow> \<lparr>outcome = Inl err, waited = 0, extractions = 0\<rparr>
      | None \<Rightarrow>
          (case waitForLogin (view_at a) (poll_extra a) (start_time a) loginTimeout of
             Some err \<Rightarrow> \<lparr>outcome = Inl err, waited = 0, extractions = 0\<rparr>
           | None \<Rightarrow>
               (case waitForAuthResponse (responses a) authResponseTimeout (select_tie a) of
                  (Some payload, t) \<Rightarrow>
                    \<lparr>outcome =
                       finalizeAuthResult L
                         \<lparr>AccessToken = payload_AccessToken payload,
                          UserUUID = payload_UUID payload,
                          PublicUserUUID = payload_PublicUUID payload,
                          UserName = payload_Name payload,
                          Email = []\<rparr>,
                     waited = t, extractions = 0\<rparr>
                | (None, t) \<Rightarrow>
                    \<lparr>outcome = extractAuthFromStorage L J (findBringAppPage (storage_view a)),
                     waited = t, extractions = 1\<rparr>)))"

text \<open>
  The merge rule of the specification for one field: the value the interceptor delivered
  when present, otherwise the value from storage.
\<close>

definition spec_merge_field :: "string \<Rightarrow> string \<Rightarrow> string" where
  "spec_merge_field intercepted stored = (if intercepted \<noteq> [] then intercepted else stored)"

section \<open>An instance of the library and engine parameters\<close>

text \<open>
  The theorems below hold for every value of the library parameters. Their examples are
  evaluated at the instances \<open>exampleLib\<close> and \<open>exampleJS\<close>, which answer as the Go library
  and the JavaScript engine do on the texts the examples use. The last two parameters of
  \<open>exampleLib\<close> are not reached by any example.
\<close>

text \<open>
  Base64 with the URL alphabet and no padding: each character stands for six bits;
  carriage returns and line feeds are skipped; a single left-over character is an error.
\<close>

definition b64url_index :: "char \<Rightarrow> nat option" where
  "b64url_index c =
     (let n = (of_char c :: nat) in
      if 65 \<le> n \<and> n \<le> 90 then Some (n - 65)
      else if 97 \<le> n \<and> n \<le> 122 then Some (n - 71)
      else if 48 \<le> n \<and> n \<le> 57 then Some (n + 4)
      else if c = CHR ''-'' then Some 62
      else if c = CHR ''_'' then Some 63
      else None)"

fun b64_quanta :: "nat list \<Rightarrow> string option" where
  "b64_quanta (a # b # c # d # rest) =
     map_option (\<lambda>t. char_of (a * 4 + b div 16) # char_of ((b mod 16) * 16 + c div 4)
                       # char_of ((c mod 4) * 64 + d) # t) (b64_quanta rest)"
| "b64_quanta [a, b, c] = Some [char_of (a * 4 + b div 16), char_of ((b mod 16) * 16 + c div 4)]"
| "b64_quanta [a, b] = Some [char_of (a * 4 + b div 16)]"
| "b64_quanta [a] = None"
| "b64_quanta [] = Some []"

definition example_DecodeString :: "string \<Rightarrow> string option" where
  "example_DecodeString s =
     (let ixs = map b64url_index (filter (\<lambda>c. c \<noteq> CHR 0x0D \<and> c \<noteq> CHR 0x0A) s) in
      if None \<in> set ixs then None else b64_quanta (map the ixs))"

text \<open>
  \<^verbatim>\<open>json.Unmarshal\<close> on the documents the examples below use; the instance
  answers with an error on every other text.
\<close>

definition example_Unmarshal :: "string \<Rightarrow> (string \<rightharpoonup> jvalue) option" where
  \<open>example_Unmarshal doc =
     (if doc = ''{"sub":"A:B:C:id-123","exp":1700000000}'' then
        Some [''sub'' \<mapsto> JString ''A:B:C:id-123'', ''exp'' \<mapsto> JNumber (Finite 1700000000)]
      else if doc = ''{"sub":"BRN:TEST:USER:uuid-123","email":"test@example.com","exp":1700000000}'' then
        Some [''sub'' \<mapsto> JString ''BRN:TEST:USER:uuid-123'',
              ''email'' \<mapsto> JString ''test@example.com'',
              ''exp'' \<mapsto> JNumber (Finite 1700000000)]
      else if doc = ''{"sub":"X:Y:Z:uuid-123"}'' then
        Some [''sub'' \<mapsto> JString ''X:Y:Z:uuid-123'']
      else if doc = ''{"sub":42,"exp":true}'' then
        Some [''sub'' \<mapsto> JNumber (Finite 42), ''exp'' \<mapsto> JBool True]
      else if doc = ''{}'' then Some Map.empty
      else if doc = ''{"exp":"1700000000"}'' then Some [''exp'' \<mapsto> JString ''1700000000'']
      else if doc = ''{"sub":"abc"}'' then Some [''sub'' \<mapsto> JString ''abc'']
      else if doc = ''{"sub":"A:B:C:"}'' then Some [''sub'' \<mapsto> JString ''A:B:C:'']
      else None)\<close>

text \<open>
  \<^verbatim>\<open>strconv.ParseFloat\<close> on a decimal numeral of at most 15 digits, which denotes a
  \<^verbatim>\<open>float64\<close> exactly; the instance answers with an error on every other text.
\<close>

definition example_ParseFloat :: "string \<Rightarrow> float64 option" where
  "example_ParseFloat s =
     (if s \<noteq> [] \<and> length s \<le> 15
         \<and> list_all (\<lambda>c. 48 \<le> (of_char c :: nat) \<and> (of_char c :: nat) \<le> 57) s then
        Some (Finite (of_nat (foldl (\<lambda>n c. 10 * n + (of_char c - 48)) (0::nat) s)))
      else None)"

definition exampleLib :: golib where
  "exampleLib =
     \<lparr>base64_DecodeString = example_DecodeString,
      json_Unmarshal = example_Unmarshal,
      strconv_ParseFloat = example_ParseFloat,
      strconv_Format = (\<lambda>f. []),
      int64_unrepresentable = (\<lambda>f. 0)\<rparr>"


text \<open>
  The JavaScript engine on the texts the examples use. The script is a raw string of
  the Go source, so the regular expression it holds reads
  \<^verbatim>\<open>/eyJ[A-Za-z0-9_-]+\\.[A-Za-z0-9_-]+\\.[A-Za-z0-9_-]+/\<close>: after \<^verbatim>\<open>eyJ\<close>, three runs of
  base64url characters, separated each time by a backslash and one more character that
  is no line terminator. A run of base64url characters cannot hold a backslash, so the
  longest run is the only one that can be followed by a match; \<^verbatim>\<open>match\<close> gives the
  leftmost match.
\<close>

definition match_jwt_here :: "string \<Rightarrow> string option" where
  "match_jwt_here s =
     (if take 3 s = ''eyJ'' then
        (let a = takeWhile (\<lambda>c. b64url_index c \<noteq> None) (drop 3 s);
             r1 = dropWhile (\<lambda>c. b64url_index c \<noteq> None) (drop 3 s)
         in if a = [] then None
            else
              (case r1 of
                 b1 # x # r2 \<Rightarrow>
                   if b1 = CHR 0x5C \<and> x \<noteq> CHR 0x0A \<and> x \<noteq> CHR 0x0D then
                     (let b = takeWhile (\<lambda>c. b64url_index c \<noteq> None) r2;
                          r3 = dropWhile (\<lambda>c. b64url_index c \<noteq> None) r2
                      in if b = [] then None
                         else
                           (case r3 of
                              b2 # y # r4 \<Rightarrow>
                                if b2 = CHR 0x5C \<and> y \<noteq> CHR 0x0A \<and> y \<noteq> CHR 0x0D then
                                  (let c = takeWhile (\<lambda>c. b64url_index c \<noteq> None) r4
                                   in if c = [] then None
                                      else Some (''eyJ'' @ a @ [b1, x] @ b @ [b2, y] @ c))
                                else None
                            | _ \<Rightarrow> None))
                   else None
               | _ \<Rightarrow> None))
      else None)"

fun example_match_jwt :: "string \<Rightarrow> string option" where
  "example_match_jwt [] = None"
| "example_match_jwt (c # cs) =
     (case match_jwt_here (c # cs) of
        Some m \<Rightarrow> Some m
      | None \<Rightarrow> example_match_jwt cs)"

text \<open>
  \<^verbatim>\<open>JSON.parse\<close> on the two JSON texts the examples store; every other text of the
  examples is no JSON, and the instance answers that \<^verbatim>\<open>JSON.parse\<close> throws.
\<close>

definition example_JSON_parse :: "string \<Rightarrow> jvalue option" where
  \<open>example_JSON_parse value =
     (if value = ''{"auth":{"access_token":"abc"}}'' then
        Some (JObject [(''auth'', JObject [(''access_token'', JString ''abc'')])])
      else if value = ''{"token":"zzz","user":{"uuid":"u-9","email":"zed@example.com"}}'' then
        Some (JObject [(''token'', JString ''zzz''),
                       (''user'', JObject [(''uuid'', JString ''u-9''),
                                           (''email'', JString ''zed@example.com'')])])
      else None)\<close>

definition exampleJS :: jsengine where
  "exampleJS = \<lparr>js_match_jwt = example_match_jwt, js_JSON_parse = example_JSON_parse\<rparr>"


section \<open>Auxiliary notions and example inputs\<close>

text \<open>
  A canonical key as the first script reads it: the item of \<^verbatim>\<open>localStorage\<close> when it is a
  non-empty string, otherwise the item of \<^verbatim>\<open>sessionStorage\<close>, otherwise the empty string.
\<close>

definition stored :: "page \<Rightarrow> string \<Rightarrow> string" where
  "stored p k =
     (case item_or (getItem (localStorage p) k) (getItem (sessionStorage p) k) of
        None \<Rightarrow> []
      | Some v \<Rightarrow> v)"

text \<open>A response of the auth endpoint with status 200 and the given body.\<close>

definition auth_response :: "string \<Rightarrow> authResponsePayload \<Rightarrow> nat \<Rightarrow> response" where
  "auth_response u payload t =
     \<lparr>resp_Status = 200, resp_URL = u, resp_JSON = Some payload, resp_offered = t\<rparr>"

definition login_payload :: authResponsePayload where
  "login_payload =
     \<lparr>payload_Name = ''Ada'', payload_UUID = ''u-1'', payload_PublicUUID = ''pu-1'',
      payload_AccessToken = ''tok-net'', payload_RefreshToken = ''ref-1''\<rparr>"

text \<open>
  The body of a token refresh (\<^verbatim>\<open>/bringauth/token\<close>): tokens, but no \<^verbatim>\<open>uuid\<close>,
  \<^verbatim>\<open>publicUuid\<close> or \<^verbatim>\<open>name\<close>.
\<close>

definition refresh_payload :: authResponsePayload where
  "refresh_payload =
     \<lparr>payload_Name = [], payload_UUID = [], payload_PublicUUID = [],
      payload_AccessToken = ''tok-net-2'', payload_RefreshToken = ''ref-2''\<rparr>"

text \<open>Two responses, offered two and three seconds into the wait.\<close>

definition login_response :: response where
  "login_response =
     auth_response ''https://api.getbring.com/rest/v2/bringauth'' login_payload 2000000000"

definition refresh_response :: response where
  "refresh_response =
     auth_response ''https://api.getbring.com/rest/v2/bringauth/token'' refresh_payload
       3000000000"

text \<open>The same login response, offered eleven seconds into the wait.\<close>

definition late_response :: response where
  "late_response =
     auth_response ''https://api.getbring.com/rest/v2/bringauth'' login_payload 11000000000"

text \<open>A page on the app URL with the given storage scopes, in a browser that answers.\<close>

definition app_page :: "(string \<times> string) list \<Rightarrow> (string \<times> string) list \<Rightarrow> page" where
  "app_page local session =
     \<lparr>page_URL = ''https://web.getbring.com/app'', localStorage = local,
      sessionStorage = session, evaluation = EvalScript, scan_evaluation = EvalScript\<rparr>"

text \<open>The login page, and a page that has left the target domain.\<close>

definition login_page :: page where
  "login_page = (app_page [] [])\<lparr>page_URL := ''https://web.getbring.com/login''\<rparr>"

definition foreign_page :: page where
  "foreign_page = (app_page [] [])\<lparr>page_URL := ''https://accounts.example.org/sso''\<rparr>"

text \<open>A page whose \<^verbatim>\<open>localStorage\<close> holds the canonical keys.\<close>

definition full_page :: page where
  "full_page =
     app_page [(''accessToken'', ''tok-store''), (''userUuid'', ''u-1''),
               (''email'', ''ada@example.com'')] []"

text \<open>A page whose \<^verbatim>\<open>sessionStorage\<close> alone holds the canonical keys.\<close>

definition session_page :: page where
  "session_page = app_page [] [(''accessToken'', ''tok-store''), (''userUuid'', ''u-1'')]"

text \<open>
  Pages whose storage holds only an access token, a JWT with the claims
  \<^verbatim>\<open>{"sub":"X:Y:Z:uuid-123"}\<close>, \<^verbatim>\<open>{"sub":"abc"}\<close> and \<^verbatim>\<open>{"sub":"A:B:C:"}\<close>.
\<close>

definition token_only_page :: page where
  "token_only_page =
     app_page [(''accessToken'', ''eyJhbGciOiJub25lIn0.eyJzdWIiOiJYOlk6Wjp1dWlkLTEyMyJ9.'')] []"

definition plain_subject_page :: page where
  "plain_subject_page =
     app_page [(''accessToken'', ''eyJhbGciOiJub25lIn0.eyJzdWIiOiJhYmMifQ.'')] []"

definition colon_subject_page :: page where
  "colon_subject_page =
     app_page [(''accessToken'', ''eyJhbGciOiJub25lIn0.eyJzdWIiOiJBOkI6QzoifQ.'')] []"

text \<open>
  A page without the canonical key \<^verbatim>\<open>accessToken\<close>, where another key holds the JSON
  text \<^verbatim>\<open>{"auth":{"access_token":"abc"}}\<close>; and a scope with that one key alone.
\<close>

definition nested_token_page :: page where
  \<open>nested_token_page =
     app_page [(''userUuid'', ''u-1''),
               (''persist:root'', ''{"auth":{"access_token":"abc"}}'')] []\<close>

definition one_key_page :: page where
  \<open>one_key_page = app_page [(''persist:root'', ''{"auth":{"access_token":"abc"}}'')] []\<close>

text \<open>A handle on a page that is the only page of its context.\<close>

definition single :: "page \<Rightarrow> view" where
  "single p = \<lparr>view_page = p, view_context = Some [p]\<rparr>"

text \<open>
  An attempt in which the browser starts, the responses are \<open>rs\<close>, the page \<open>p\<close> is the
  only page at every poll and when storage is read, and a poll takes one nanosecond.
\<close>

definition logged_in :: "response list \<Rightarrow> page \<Rightarrow> attempt" where
  "logged_in rs p =
     \<lparr>setup_error = None, responses = rs, view_at = (\<lambda>i. single p),
      poll_extra = (\<lambda>i. 0), start_time = 0, select_tie = False, storage_view = single p\<rparr>"

section \<open>Properties of the string functions\<close>

lemma strings_Split_nonempty: "strings_Split s c \<noteq> []"
  by (induction s) (auto split: list.splits)

lemma length_strings_Split: "length (strings_Split s c) = Suc (count_list s c)"
  by (induction s) (auto split: list.splits simp: strings_Split_nonempty)

lemma strings_Split_no_sep: "c \<notin> set s \<Longrightarrow> strings_Split s c = [s]"
  by (induction s) auto

lemma strings_Split_append:
  "c \<notin> set h \<Longrightarrow> strings_Split (h @ c # t) c = h # strings_Split t c"
  by (induction h) (auto split: list.splits simp: strings_Split_nonempty)

lemma strings_Split3:
  "c \<notin> set h \<Longrightarrow> c \<notin> set p \<Longrightarrow> c \<notin> set s \<Longrightarrow>
   strings_Split (h @ c # p @ c # s) c = [h, p, s]"
  by (simp add: strings_Split_append strings_Split_no_sep)

section \<open>Properties of \<^verbatim>\<open>decodeJWT\<close>\<close>

lemma decodeJWT_not3:
  "count_list token (CHR ''.'') \<noteq> 2 \<Longrightarrow> decodeJWT L token = Inl InvalidTokenFormat"
  by (simp add: decodeJWT_def length_strings_Split Let_def)

lemma decodeJWT_parts:
  assumes "CHR ''.'' \<notin> set h" "CHR ''.'' \<notin> set p" "CHR ''.'' \<notin> set s"
  shows "decodeJWT L (h @ CHR ''.'' # p @ CHR ''.'' # s) =
     (case base64_DecodeString L p of
        None \<Rightarrow> Inl Base64Error
      | Some payload \<Rightarrow>
          (case json_Unmarshal L payload of
             None \<Rightarrow> Inl JSONError
           | Some raw \<Rightarrow>
               Inr \<lparr>Sub = string_claim raw ''sub'',
                    claims_Email = string_claim raw ''email'',
                    Exp = exp_claim L raw\<rparr>))"
  using assms by (simp add: decodeJWT_def strings_Split3 Let_def)


lemma string_claim_other: "(\<And>v. raw key \<noteq> Some (JString v)) \<Longrightarrow> string_claim raw key = []"
  by (auto simp: string_claim_def split: option.splits jvalue.splits)

lemma exp_claim_absent: "raw ''exp'' = None \<Longrightarrow> exp_claim L raw = 0"
  by (simp add: exp_claim_def)

lemma int64_of_zero: "int64_of_float64 L (Finite 0) = 0"
  by (simp add: int64_of_float64_def truncate_rat_def in_int64_def)



lemma exp_claim_nonnumeric:
  "raw ''exp'' = Some v \<Longrightarrow> v = JNull \<or> (\<exists>b. v = JBool b) \<or> (\<exists>xs. v = JArray xs) \<or> (\<exists>ms. v = JObject ms)
     \<or> (\<exists>s. v = JString s \<and> (s = [] \<or> strconv_ParseFloat L s = None)) \<Longrightarrow>
   exp_claim L raw = 0"
  by (auto simp: exp_claim_def int64_of_zero)






text \<open>
  C10. For every token \<open>h.p.s\<close> of exactly three pieces whose middle piece base64url-decodes
  to a JSON object, \<^verbatim>\<open>decodeJWT\<close> succeeds whatever the members \<open>sub\<close>, \<open>email\<close> and
  \<open>exp\<close> are: \<open>Sub\<close> is empty when \<open>sub\<close> is absent or not a string, \<open>Email\<close> is empty when
  \<open>email\<close> is absent or not a string, and \<open>Exp\<close> is 0 when \<open>exp\<close> is absent, and also when
  it is \<open>null\<close>, a boolean, an array, an object, or a string that is empty or that
  \<^verbatim>\<open>strconv.ParseFloat\<close> rejects. An absent \<open>sub\<close> is not a decode error.
\<close>

theorem decodeJWT_zero_values:
  "CHR ''.'' \<notin> set h \<and> CHR ''.'' \<notin> set p \<and> CHR ''.'' \<notin> set s \<and>
   base64_DecodeString L p = Some payload \<and> json_Unmarshal L payload = Some raw \<longrightarrow>
   (\<exists>c. decodeJWT L (h @ CHR ''.'' # p @ CHR ''.'' # s) = Inr c \<and>
        ((\<forall>v. raw ''sub'' \<noteq> Some (JString v)) \<longrightarrow> Sub c = []) \<and>
        ((\<forall>v. raw ''email'' \<noteq> Some (JString v)) \<longrightarrow> claims_Email c = []) \<and>
        (raw ''exp'' = None \<longrightarrow> Exp c = 0) \<and>
        (\<forall>v. raw ''exp'' = Some v \<and>
             (v = JNull \<or> (\<exists>b. v = JBool b) \<or> (\<exists>xs. v = JArray xs) \<or> (\<exists>ms. v = JObject ms)
              \<or> (\<exists>t. v = JString t \<and> (t = [] \<or> strconv_ParseFloat L t = None))) \<longrightarrow>
             Exp c = 0))"
proof (intro impI)
  assume a: "CHR ''.'' \<notin> set h \<and> CHR ''.'' \<notin> set p \<and> CHR ''.'' \<notin> set s \<and>
   base64_DecodeString L p = Some payload \<and> json_Unmarshal L payload = Some raw"
  let ?c = "\<lparr>Sub = string_claim raw ''sub'', claims_Email = string_claim raw ''email'',
             Exp = exp_claim L raw\<rparr>"
  have dec: "decodeJWT L (h @ CHR ''.'' # p @ CHR ''.'' # s) = Inr ?c"
    using a by (simp add: decodeJWT_parts)
  have e: "\<forall>v. raw ''exp'' = Some v \<and>
             (v = JNull \<or> (\<exists>b. v = JBool b) \<or> (\<exists>xs. v = JArray xs) \<or> (\<exists>ms. v = JObject ms)
              \<or> (\<exists>t. v = JString t \<and> (t = [] \<or> strconv_ParseFloat L t = None))) \<longrightarrow>
             exp_claim L raw = 0"
    using exp_claim_nonnumeric by blast
  show "\<exists>c. decodeJWT L (h @ CHR ''.'' # p @ CHR ''.'' # s) = Inr c \<and>
        ((\<forall>v. raw ''sub'' \<noteq> Some (JString v)) \<longrightarrow> Sub c = []) \<and>
        ((\<forall>v. raw ''email'' \<noteq> Some (JString v)) \<longrightarrow> claims_Email c = []) \<and>
        (raw ''exp'' = None \<longrightarrow> Exp c = 0) \<and>
        (\<forall>v. raw ''exp'' = Some v \<and>
             (v = JNull \<or> (\<exists>b. v = JBool b) \<or> (\<exists>xs. v = JArray xs) \<or> (\<exists>ms. v = JObject ms)
              \<or> (\<exists>t. v = JString t \<and> (t = [] \<or> strconv_ParseFloat L t = None))) \<longrightarrow>
             Exp c = 0)"
    apply (rule exI[of _ ?c])
    apply (intro conjI)
        apply (rule dec)
       apply (simp add: string_claim_other)
      apply (simp add: string_claim_other)
     apply (simp add: exp_claim_absent)
    using e apply simp
    done
qed

lemma example_b64_empty:
  \<open>base64_DecodeString exampleLib ''e30'' = Some ''{}''\<close>
  unfolding exampleLib_def by code_simp

lemma example_b64_wrong_types:
  \<open>base64_DecodeString exampleLib ''eyJzdWIiOjQyLCJleHAiOnRydWV9'' = Some ''{"sub":42,"exp":true}''\<close>
  unfolding exampleLib_def by code_simp

lemma example_json_empty:
  \<open>json_Unmarshal exampleLib ''{}'' = Some Map.empty\<close>
  by (simp add: exampleLib_def example_Unmarshal_def)

lemma example_json_wrong_types:
  \<open>json_Unmarshal exampleLib ''{"sub":42,"exp":true}''
     = Some [''sub'' \<mapsto> JNumber (Finite 42), ''exp'' \<mapsto> JBool True]\<close>
  by (simp add: exampleLib_def example_Unmarshal_def)

theorem decodeJWT_zero_values_witness:
  \<open>CHR ''.'' \<notin> set ''e30'' \<and> CHR ''.'' \<notin> set ''eyJzdWIiOjQyLCJleHAiOnRydWV9'' \<and>
   CHR ''.'' \<notin> set '''' \<and>
   base64_DecodeString exampleLib ''e30'' = Some ''{}'' \<and>
   json_Unmarshal exampleLib ''{}'' = Some Map.empty \<and>
   (\<exists>c. decodeJWT exampleLib ''e30.e30.'' = Inr c \<and>
        Sub c = [] \<and> claims_Email c = [] \<and> Exp c = 0) \<and>
   base64_DecodeString exampleLib ''eyJzdWIiOjQyLCJleHAiOnRydWV9'' = Some ''{"sub":42,"exp":true}'' \<and>
   json_Unmarshal exampleLib ''{"sub":42,"exp":true}''
     = Some [''sub'' \<mapsto> JNumber (Finite 42), ''exp'' \<mapsto> JBool True] \<and>
   (\<exists>c. decodeJWT exampleLib ''e30.eyJzdWIiOjQyLCJleHAiOnRydWV9.'' = Inr c \<and>
        Sub c = [] \<and> claims_Email c = [] \<and> Exp c = 0)\<close>
  using decodeJWT_zero_values [of "''e30''" "''e30''" "''''" exampleLib "''{}''" Map.empty]
    decodeJWT_zero_values [of "''e30''" "''eyJzdWIiOjQyLCJleHAiOnRydWV9''" "''''" exampleLib
      \<open>''{"sub":42,"exp":true}''\<close>
      "[''sub'' \<mapsto> JNumber (Finite 42), ''exp'' \<mapsto> JBool True]"]
    example_b64_empty example_json_empty example_b64_wrong_types example_json_wrong_types
  by auto

subsection \<open>Further examples on the instance\<close>

text \<open>
  A string member \<open>exp\<close> that \<^verbatim>\<open>strconv.ParseFloat\<close> accepts is coerced like a number.
\<close>

lemma exp_claim_numeric_string:
  "raw ''exp'' = Some (JString t) \<Longrightarrow> t \<noteq> [] \<Longrightarrow> strconv_ParseFloat L t = Some (Finite r) \<Longrightarrow>
   in_int64 (truncate_rat r) \<Longrightarrow> exp_claim L raw = truncate_rat r"
  by (simp add: exp_claim_def int64_of_float64_def)

lemma example_ParseFloat_digits:
  "strconv_ParseFloat exampleLib ''1700000000'' = Some (Finite 1700000000)"
  by (simp add: exampleLib_def example_ParseFloat_def)

lemma example_exp_string:
  "exp_claim exampleLib [''exp'' \<mapsto> JString ''1700000000''] = 1700000000"
  using exp_claim_numeric_string [of "[''exp'' \<mapsto> JString ''1700000000'']" "''1700000000''"
      exampleLib 1700000000]
  by (simp add: example_ParseFloat_digits truncate_rat_def in_int64_def)

lemma example_b64_test:
  \<open>base64_DecodeString exampleLib
     ''eyJzdWIiOiJCUk46VEVTVDpVU0VSOnV1aWQtMTIzIiwiZW1haWwiOiJ0ZXN0QGV4YW1wbGUuY29tIiwiZXhwIjoxNzAwMDAwMDAwfQ''
     = Some ''{"sub":"BRN:TEST:USER:uuid-123","email":"test@example.com","exp":1700000000}''\<close>
  unfolding exampleLib_def by code_simp

lemma example_json_test:
  \<open>json_Unmarshal exampleLib
     ''{"sub":"BRN:TEST:USER:uuid-123","email":"test@example.com","exp":1700000000}''
     = Some [''sub'' \<mapsto> JString ''BRN:TEST:USER:uuid-123'',
             ''email'' \<mapsto> JString ''test@example.com'',
             ''exp'' \<mapsto> JNumber (Finite 1700000000)]\<close>
  by (simp add: exampleLib_def example_Unmarshal_def)

text \<open>The two tests of \<^verbatim>\<open>decodeJWT\<close> in the repository, on the instance.\<close>

lemma TestDecodeJWT:
  "decodeJWT exampleLib
     ''eyJhbGciOiJub25lIn0.eyJzdWIiOiJCUk46VEVTVDpVU0VSOnV1aWQtMTIzIiwiZW1haWwiOiJ0ZXN0QGV4YW1wbGUuY29tIiwiZXhwIjoxNzAwMDAwMDAwfQ.''
     = Inr \<lparr>Sub = ''BRN:TEST:USER:uuid-123'', claims_Email = ''test@example.com'',
            Exp = 1700000000\<rparr>"
  using decodeJWT_parts [of "''eyJhbGciOiJub25lIn0''"
      "''eyJzdWIiOiJCUk46VEVTVDpVU0VSOnV1aWQtMTIzIiwiZW1haWwiOiJ0ZXN0QGV4YW1wbGUuY29tIiwiZXhwIjoxNzAwMDAwMDAwfQ''"
      "''''" exampleLib]
  by (simp add: example_b64_test example_json_test string_claim_def exp_claim_def
      int64_of_float64_def truncate_rat_def in_int64_def)

lemma TestDecodeJWTInvalid:
  "decodeJWT exampleLib ''not-a-jwt'' = Inl InvalidTokenFormat"
  by (simp add: decodeJWT_not3)

section \<open>Properties of the expiry test\<close>

lemma wrap64_id: "in_int64 x \<Longrightarrow> wrap64 x = x"
  by (simp add: wrap64_def in_int64_def)

lemma time_Before_Unix:
  assumes "0 < e" "e + unixToInternal < 2 ^ 63"
  shows "time_Before (time_Unix e) (time_at n k) \<longleftrightarrow> e < n \<or> e = n \<and> 0 < k"
proof -
  have "in_int64 (e + unixToInternal)"
    using assms by (simp add: in_int64_def unixToInternal_def)
  then have "wrap64 (e + unixToInternal) = e + unixToInternal"
    by (rule wrap64_id)
  then show ?thesis
    by (auto simp: time_Before_def time_Unix_def time_at_def)
qed

text \<open>
  Beyond the bound of the next theorem \<^verbatim>\<open>time.Unix\<close> wraps around, and a token whose
  \<open>exp\<close> lies in the far future counts as expired.
\<close>

lemma tokenExpired_wrap: "tokenExpired (2^63 - 1) (time_at 1700000000 0)"
  by (simp add: tokenExpired_def time_Before_def time_Unix_def time_at_def wrap64_def unixToInternal_def)

text \<open>
  C8, as the code has it. The expiry test of \<^verbatim>\<open>loginCommand\<close> and \<^verbatim>\<open>statusCommand\<close> is
  true iff \<open>exp\<close> is strictly positive and the instant \<open>exp\<close> seconds after the epoch is
  strictly before \<open>now\<close> (for \<open>exp\<close> below \<open>2^63 - 62135596800\<close>, where \<^verbatim>\<open>time.Unix\<close> does
  not wrap). A zero or negative \<open>exp\<close> never counts as expired. For \<open>now\<close> later than
  7200 it is true for \<open>exp = now - 7200\<close> and false for \<open>exp = now + 7200\<close>.
\<close>

theorem tokenExpired_iff:
  "(e + unixToInternal < 2 ^ 63 \<longrightarrow>
      (tokenExpired e (time_at n k) \<longleftrightarrow> 0 < e \<and> (e < n \<or> e = n \<and> 0 < k))) \<and>
   (7200 < n \<and> n + 7200 + unixToInternal < 2 ^ 63 \<longrightarrow>
      tokenExpired (n - 7200) (time_at n k) \<and> \<not> tokenExpired (n + 7200) (time_at n k))"
proof (intro conjI impI)
  assume b: "e + unixToInternal < 2 ^ 63"
  show "tokenExpired e (time_at n k) \<longleftrightarrow> 0 < e \<and> (e < n \<or> e = n \<and> 0 < k)"
  proof (cases "0 < e")
    case True
    then show ?thesis using b by (simp add: tokenExpired_def time_Before_Unix)
  next
    case False
    then show ?thesis by (simp add: tokenExpired_def)
  qed
next
  assume h: "7200 < n \<and> n + 7200 + unixToInternal < 2 ^ 63"
  then have "0 < n - 7200" "n - 7200 + unixToInternal < 2 ^ 63" by simp_all
  then show "tokenExpired (n - 7200) (time_at n k)"
    by (simp add: tokenExpired_def time_Before_Unix)
next
  assume h: "7200 < n \<and> n + 7200 + unixToInternal < 2 ^ 63"
  then have "0 < n + 7200" "n + 7200 + unixToInternal < 2 ^ 63" by simp_all
  then show "\<not> tokenExpired (n + 7200) (time_at n k)"
    by (simp add: tokenExpired_def time_Before_Unix)
qed

theorem tokenExpired_iff_witness:
  "(1699992800::int) + unixToInternal < 2 ^ 63 \<and>
   tokenExpired 1699992800 (time_at 1700000000 0) \<and>
   \<not> tokenExpired 1700007200 (time_at 1700000000 0) \<and>
   \<not> tokenExpired 1700000000 (time_at 1700000000 0) \<and>
   tokenExpired 1700000000 (time_at 1700000000 1)"
  using tokenExpired_iff [of 1699992800 1700000000 0]
    tokenExpired_iff [of 1700000000 1700000000 0]
    tokenExpired_iff [of 1700000000 1700000000 1]
  by (simp add: unixToInternal_def)

text \<open>
  The claim as the specification words it fails for a negative \<open>exp\<close>: it is nonzero and
  less than \<open>now\<close>, and the code does not count it as expired.
\<close>

theorem tokenExpired_negative_counterexample:
  "\<not> (tokenExpired (- 7200) (time_at 1700000000 0) \<longleftrightarrow> spec_isExpired (Some (- 7200)) 1700000000)"
  by (simp add: tokenExpired_def spec_isExpired_def)


end
